theory Spec2Isabelle
  imports Main
begin

section \<open>The listing editor: form values and the update request\<close>

text \<open>
  The edit modal (\<open>EditProductModal\<close>) holds the form values in a \<open>ProductEditData\<close>
  object, every attribute of which is optional. An absent attribute (\<open>undefined\<close>) is
  \<open>None\<close>. \<open>price\<close> is a number or a string, \<open>negotiable\<close> a boolean or a string, and
  \<open>childCategory\<close> a string or \<open>null\<close>; \<open>null\<close> and \<open>undefined\<close> are both falsy and the
  code only tests that attribute for truthiness, so both are \<open>None\<close> there.
\<close>

datatype price_value = PriceNumber int | PriceString string

datatype negotiable_value = NegotiableBool bool | NegotiableString string

record ProductEditData =
  categoryGroup :: "string option"
  category :: "string option"
  subCategory :: "string option"
  childCategory :: "string option"
  title :: "string option"
  name :: "string option"
  location :: "string option"
  attributes :: "(string \<times> string) list option"
  description :: "string option"
  price :: "price_value option"
  negotiable :: "negotiable_value option"
  contactNumber :: "string option"

text \<open>
  The request handed to the update collaborator. \<open>Number(formData.price)\<close> is kept as the
  coercion applied to its argument: no property here depends on its floating-point value.
\<close>

datatype number_coercion = Number "price_value option"

record image_ref =
  imageUrl :: string
  image_id :: string

record UpdateProductProps =
  req_id :: string
  req_title :: "string option"
  req_description :: "string option"
  req_price :: number_coercion
  req_location :: "string option"
  req_category :: string
  req_subCategory :: string
  req_childCategory :: "string option"
  req_contactNumber :: string
  req_images :: "image_ref list"
  req_isPromoted :: bool
  req_negotiable :: bool
  req_attributes :: "(string \<times> string) list"

text \<open>
  JavaScript's \<open>a || b\<close> on optional strings: \<open>a\<close> when it is truthy (present and not the
  empty string), otherwise \<open>b\<close>, whatever \<open>b\<close> is.
\<close>

definition js_or :: "string option \<Rightarrow> string option \<Rightarrow> string option" where
  "js_or a b = (case a of None \<Rightarrow> b | Some s \<Rightarrow> if s = [] then b else Some s)"

text \<open>\<open>a || ""\<close>: the string itself, or the empty string when it is absent.\<close>

definition or_empty :: "string option \<Rightarrow> string" where
  "or_empty a = (case a of None \<Rightarrow> [] | Some s \<Rightarrow> s)"

text \<open>Decimal digits of an array index, for the template string \<open>image-${index}\<close>.\<close>

fun string_of_nat :: "nat \<Rightarrow> string" where
  "string_of_nat n =
     (if n < 10 then [''0123456789'' ! n]
      else string_of_nat (n div 10) @ [''0123456789'' ! (n mod 10)])"

declare string_of_nat.simps [simp del]

definition image_refs :: "string list \<Rightarrow> image_ref list" where
  "image_refs imageUrls =
     map (\<lambda>(index, url). \<lparr>imageUrl = url, image_id = ''image-'' @ string_of_nat index\<rparr>)
       (enumerate 0 imageUrls)"

text \<open>
  The \<open>negotiable\<close> attribute of the request:
  \<open>typeof formData.negotiable === "boolean" ? formData.negotiable : formData.negotiable === "true"\<close>.
\<close>

definition negotiable_of :: "negotiable_value option \<Rightarrow> bool" where
  "negotiable_of v =
     (case v of
        Some (NegotiableBool b) \<Rightarrow> b
      | Some (NegotiableString s) \<Rightarrow> s = ''true''
      | None \<Rightarrow> False)"

text \<open>The object literal \<open>reqBody\<close> of \<open>handleSubmit\<close>.\<close>

definition reqBody :: "string \<Rightarrow> ProductEditData \<Rightarrow> string list \<Rightarrow> UpdateProductProps" where
  "reqBody pid fd imageUrls =
     \<lparr>req_id = pid,
      req_title = js_or (title fd) (name fd),
      req_description = description fd,
      req_price = Number (price fd),
      req_location = location fd,
      req_category = or_empty (category fd),
      req_subCategory = or_empty (subCategory fd),
      req_childCategory = js_or (childCategory fd) None,
      req_contactNumber = or_empty (contactNumber fd),
      req_images = image_refs imageUrls,
      req_isPromoted = False,
      req_negotiable = negotiable_of (negotiable fd),
      req_attributes = (case attributes fd of None \<Rightarrow> [] | Some a \<Rightarrow> a)\<rparr>"

text \<open>The value shown in the title input: \<open>formData.title || formData.name || ""\<close>.\<close>

definition title_input_value :: "ProductEditData \<Rightarrow> string" where
  "title_input_value fd = or_empty (js_or (js_or (title fd) (name fd)) (Some []))"

section \<open>The form hook\<close>

text \<open>
  The form hook (\<open>hooks/use-product-form\<close>), which seeds the form values from the listing,
  is not among the sources; the modal only calls it. What follows in this section is
  modelled from the spec: its data model of a listing (section 3) and its contract for
  the initialisation of the form (section 4.2).
\<close>

text \<open>
  Modelled from the spec: the listing that the missing form hook is given. It has an
  identifier, a title, a description, a location, a numeric price, a negotiable flag, a
  contact number, a category path, a free-form attribute mapping and an ordered list of
  image references; older records have a legacy \<open>name\<close>. Any of them may be lacking.
\<close>

record Listing =
  listing_id :: string
  listing_title :: "string option"
  listing_name :: "string option"
  listing_description :: "string option"
  listing_location :: "string option"
  listing_price :: "int option"
  listing_negotiable :: "bool option"
  listing_contactNumber :: "string option"
  listing_categoryGroup :: "string option"
  listing_category :: "string option"
  listing_subCategory :: "string option"
  listing_childCategory :: "string option"
  listing_attributes :: "(string \<times> string) list option"
  listing_images :: "string list"

text \<open>
  Modelled from the spec: \<open>initialize(listing)\<close> of the missing form hook gives the form
  values. Every field is seeded from the attribute of the listing and is undefined when
  the listing lacks it; \<open>title\<close> falls back to the legacy \<open>name\<close> when the listing has no
  \<open>title\<close>.
\<close>

definition initialize :: "Listing \<Rightarrow> ProductEditData" where
  "initialize l =
     \<lparr>categoryGroup = listing_categoryGroup l,
      category = listing_category l,
      subCategory = listing_subCategory l,
      childCategory = listing_childCategory l,
      title = (case listing_title l of None \<Rightarrow> listing_name l | Some t \<Rightarrow> Some t),
      name = listing_name l,
      location = listing_location l,
      attributes = listing_attributes l,
      description = listing_description l,
      price = map_option PriceNumber (listing_price l),
      negotiable = map_option NegotiableBool (listing_negotiable l),
      contactNumber = listing_contactNumber l\<rparr>"


section \<open>The edit modal: state, submit flow and rendering\<close>

text \<open>
  The state of one modal instance: the two \<open>useState\<close> cells \<open>isSubmitting\<close> and
  \<open>showSuccess\<close>, the form values returned by the form hook (\<open>null\<close> is \<open>None\<close>), and what
  the image manager hook returns (\<open>images\<close>, \<open>isUploading\<close>, \<open>uploadError\<close>). The entries of
  \<open>images\<close> are opaque to the modal, hence the type parameter. Three further components
  record what the modal has asked of the outside: \<open>awaiting\<close> holds the requests whose
  \<open>await onUpdate(reqBody)\<close> has not settled yet, \<open>timers\<close> counts the pending
  \<open>setTimeout\<close> callbacks, and \<open>effects\<close> lists the calls made to the collaborators, in
  order.
\<close>

datatype js_error = Error string

datatype effect =
    CallOnUpdate UpdateProductProps
  | ToastSuccess string
  | ToastError string
  | ConsoleError string js_error
  | SetTimeout nat
  | CallOnCancel

record 'img modal_state =
  isSubmitting :: bool
  showSuccess :: bool
  formData :: "ProductEditData option"
  images :: "'img list"
  isUploading :: bool
  uploadError :: "string option"
  awaiting :: "UpdateProductProps list"
  timers :: nat
  effects :: "effect list"

text \<open>
  \<open>handleSubmit\<close> up to its only suspension point, \<open>await onUpdate(reqBody)\<close>. The
  function is made anew at every render and closes over the constants of that render:
  \<open>isSubmitting\<close>, \<open>formData\<close> and the \<open>getImageUrls\<close> that the image manager hook returned.
  So it takes two states: \<open>seen\<close>, the state as its render saw it, which the guard and the
  request read, and \<open>st\<close>, the state at the moment of the call, on which the setters act.
  \<open>getImageUrls\<close> is a parameter; it is called inside the \<open>try\<close> block, so an exception it
  throws (\<open>Inl\<close>) runs the \<open>catch\<close> and the \<open>finally\<close> clauses at once.
  \<open>e.preventDefault()\<close> acts on the browser event only.
\<close>

definition handleSubmit_begin ::
  "('img list \<Rightarrow> js_error + string list) \<Rightarrow> string \<Rightarrow> 'img modal_state \<Rightarrow>
   'img modal_state \<Rightarrow> 'img modal_state" where
  "handleSubmit_begin getImageUrls pid seen st =
     (case formData seen of
        None \<Rightarrow> st
      | Some fd \<Rightarrow>
          if isSubmitting seen then st
          else
            (let st1 = st\<lparr>isSubmitting := True\<rparr> in
             case getImageUrls (images seen) of
               Inl err \<Rightarrow>
                 st1\<lparr>effects := effects st1 @
                        [ConsoleError ''Update error:'' err, ToastError ''Failed to update product.''],
                     isSubmitting := False\<rparr>
             | Inr imageUrls \<Rightarrow>
                 st1\<lparr>awaiting := awaiting st1 @ [reqBody pid fd imageUrls],
                     effects := effects st1 @ [CallOnUpdate (reqBody pid fd imageUrls)]\<rparr>))"

text \<open>
  The rest of \<open>handleSubmit\<close>, run when the awaited call settles: the success path
  (\<open>setShowSuccess(true)\<close>, the success toast, the 1200 ms timer), or the \<open>catch\<close> clause;
  the \<open>finally\<close> clause in both. With nothing awaited there is no continuation to run.
\<close>

datatype update_outcome = Resolved | Rejected js_error

definition handleSubmit_settle :: "update_outcome \<Rightarrow> 'img modal_state \<Rightarrow> 'img modal_state" where
  "handleSubmit_settle outcome st =
     (case awaiting st of
        [] \<Rightarrow> st
      | req # rest \<Rightarrow>
          (case outcome of
             Resolved \<Rightarrow>
               st\<lparr>awaiting := rest,
                  showSuccess := True,
                  effects := effects st @
                    [ToastSuccess ''Product updated successfully!'', SetTimeout 1200],
                  timers := Suc (timers st),
                  isSubmitting := False\<rparr>
           | Rejected err \<Rightarrow>
               st\<lparr>awaiting := rest,
                  effects := effects st @
                    [ConsoleError ''Update error:'' err, ToastError ''Failed to update product.''],
                  isSubmitting := False\<rparr>))"


text \<open>
  A whole submission by the handler of the render that shows the state \<open>st\<close>, with nothing
  else happening in between.
\<close>

definition handleSubmit ::
  "('img list \<Rightarrow> js_error + string list) \<Rightarrow> string \<Rightarrow> update_outcome \<Rightarrow>
   'img modal_state \<Rightarrow> 'img modal_state" where
  "handleSubmit getImageUrls pid outcome st =
     handleSubmit_settle outcome (handleSubmit_begin getImageUrls pid st st)"

text \<open>A freshly mounted modal: \<open>useState(false)\<close> twice, nothing asked of anyone yet.\<close>

definition modal_init ::
  "ProductEditData option \<Rightarrow> 'img list \<Rightarrow> bool \<Rightarrow> string option \<Rightarrow> 'img modal_state" where
  "modal_init fd imgs u e =
     \<lparr>isSubmitting = False, showSuccess = False, formData = fd, images = imgs,
      isUploading = u, uploadError = e, awaiting = [], timers = 0, effects = []\<rparr>"







subsection \<open>Rendering\<close>

text \<open>
  The props and the result of the product data hook that rendering reads. A load error is
  an error object, with the name of its class and its message, or a string (the prop is
  typed \<open>unknown\<close>); a product is an object and so always truthy.
\<close>

datatype load_error = ErrorObject string string | ErrorText string

fun truthy_error :: "load_error \<Rightarrow> bool" where
  "truthy_error (ErrorObject n m) = True"
| "truthy_error (ErrorText s) = (s \<noteq> [])"

text \<open>
  \<open>String(loadError)\<close>. For an error object this is \<open>Error.prototype.toString\<close>: the
  message alone when the name is empty, the name alone when the message is empty,
  otherwise the name, a colon and a space, and the message.
\<close>

fun String :: "load_error \<Rightarrow> string" where
  "String (ErrorObject n m) =
     (if n = [] then m else if m = [] then n else n @ '': '' @ m)"
| "String (ErrorText s) = s"

record 'p modal_props =
  isOpen :: bool
  product :: "'p option"
  externalLoading :: "bool option"
  externalError :: "load_error option"

record 'p product_data =
  newProductData :: "'p option"
  isLoadingProduct :: bool
  errorProduct :: "load_error option"

text \<open>\<open>a ?? b\<close>: \<open>b\<close> only when \<open>a\<close> is \<open>null\<close> or \<open>undefined\<close>.\<close>

definition nullish :: "'a option \<Rightarrow> 'a \<Rightarrow> 'a" where
  "nullish a b = (case a of None \<Rightarrow> b | Some x \<Rightarrow> x)"

definition isLoading :: "'p modal_props \<Rightarrow> 'p product_data \<Rightarrow> bool" where
  "isLoading props hook = nullish (externalLoading props) (isLoadingProduct hook)"

definition loadError :: "'p modal_props \<Rightarrow> 'p product_data \<Rightarrow> load_error option" where
  "loadError props hook =
     (case externalError props of None \<Rightarrow> errorProduct hook | Some e \<Rightarrow> Some e)"

text \<open>\<open>const productData = newProductData || product\<close>.\<close>

definition productData :: "'p modal_props \<Rightarrow> 'p product_data \<Rightarrow> 'p option" where
  "productData props hook =
     (case newProductData hook of None \<Rightarrow> product props | Some p \<Rightarrow> Some p)"

record form_view =
  title_value :: string
  cancel_disabled :: bool
  submit_disabled :: bool
  submit_label :: string

datatype view =
    Hidden
  | LoadingPanel
  | NoDataPanel string string
  | EditForm form_view

definition render :: "'p modal_props \<Rightarrow> 'p product_data \<Rightarrow> 'img modal_state \<Rightarrow> view" where
  "render props hook st =
     (if \<not> isOpen props then Hidden
      else if isLoading props hook then LoadingPanel
      else
        (case (productData props hook, formData st) of
           (Some p, Some fd) \<Rightarrow>
             EditForm
               \<lparr>title_value = title_input_value fd,
                cancel_disabled = (isSubmitting st \<or> isUploading st),
                submit_disabled = (isSubmitting st \<or> isUploading st),
                submit_label =
                  (if isSubmitting st \<or> isUploading st
                   then (if isUploading st then ''Uploading...'' else ''Updating...'')
                   else if showSuccess st then ''Success!'' else ''Update Product'')\<rparr>
         | _ \<Rightarrow>
             (case loadError props hook of
                Some e \<Rightarrow>
                  if truthy_error e then NoDataPanel ''Failed to load product'' (String e)
                  else NoDataPanel ''Product not found''
                         ''Unable to load product data. Please try again.''
              | None \<Rightarrow>
                  NoDataPanel ''Product not found''
                    ''Unable to load product data. Please try again.'')))"

section \<open>The product fetcher hook\<close>

text \<open>
  \<open>useFetchProductById\<close>. The key it gives the cache library: the API URL when fetching
  is enabled and the identifier is not empty, otherwise \<open>null\<close>.
\<close>

definition apiUrl :: "string \<Rightarrow> bool \<Rightarrow> string option" where
  "apiUrl productId enabled =
     (if enabled \<and> productId \<noteq> [] then Some (''/api/listing-details?id='' @ productId)
      else None)"

text \<open>
  What \<open>fetcher(url)\<close> can give \<open>jsonFetcher\<close>: an exception, a \<open>Response\<close> object, or any
  other value. For a \<open>Response\<close> only the result of \<open>res.json()\<close> matters: the decoded
  value, or \<open>None\<close> when the body is not JSON and the call rejects.
\<close>

datatype js_value =
    JUndefined
  | JNull
  | JBool bool
  | JNumber int
  | JString string
  | JArray "js_value list"
  | JObject "(string \<times> js_value) list"

datatype fetched = Response "js_value option" | Plain js_value

datatype fetcher_outcome = FetcherThrows js_error | FetcherReturns fetched

fun truthy :: "fetched \<Rightarrow> bool" where
  "truthy (Response body) = True"
| "truthy (Plain JUndefined) = False"
| "truthy (Plain JNull) = False"
| "truthy (Plain (JBool b)) = b"
| "truthy (Plain (JNumber n)) = (n \<noteq> 0)"
| "truthy (Plain (JString s)) = (s \<noteq> [])"
| "truthy (Plain (JArray xs)) = True"
| "truthy (Plain (JObject kvs)) = True"

datatype fetch_error =
    FetcherError js_error
  | NoResponse
  | JsonSyntaxError

text \<open>
  \<open>jsonFetcher\<close>, with the imported \<open>fetcher\<close> as a parameter: \<open>NoResponse\<close> is
  \<open>new Error("No response from server")\<close>; an exception of \<open>fetcher\<close> or of \<open>res.json()\<close>
  propagates. The two \<open>as\<close> casts do nothing at run time.
\<close>

definition jsonFetcher :: "(string \<Rightarrow> fetcher_outcome) \<Rightarrow> string \<Rightarrow> fetch_error + js_value" where
  "jsonFetcher fetcher u =
     (case fetcher u of
        FetcherThrows err \<Rightarrow> Inl (FetcherError err)
      | FetcherReturns res \<Rightarrow>
          if \<not> truthy res then Inl NoResponse
          else
            (case res of
               Response body \<Rightarrow>
                 (case body of None \<Rightarrow> Inl JsonSyntaxError | Some json \<Rightarrow> Inr json)
             | Plain v \<Rightarrow> Inr v))"

text \<open>
  The envelope \<open>{data, message?, success?}\<close> of \<open>ListingDetailsResponse\<close>: an object with
  a \<open>data\<close> attribute, whose \<open>message\<close>, when there is one, is a string and whose \<open>success\<close>,
  when there is one, is a boolean.
\<close>

fun is_string :: "js_value \<Rightarrow> bool" where
  "is_string (JString s) = True"
| "is_string v = False"

fun is_boolean :: "js_value \<Rightarrow> bool" where
  "is_boolean (JBool b) = True"
| "is_boolean v = False"

fun is_envelope :: "js_value \<Rightarrow> bool" where
  "is_envelope (JObject kvs) =
     (map_of kvs ''data'' \<noteq> None \<and>
      (case map_of kvs ''message'' of None \<Rightarrow> True | Some m \<Rightarrow> is_string m) \<and>
      (case map_of kvs ''success'' of None \<Rightarrow> True | Some s \<Rightarrow> is_boolean s))"
| "is_envelope v = False"

text \<open>
  What the hook asks of the cache library. At a render the library sees the key; it
  reacts when the key differs from that of the previous render (or on mount). The
  effect of the hook depends on \<open>productId\<close>, \<open>enabled\<close> and the stable \<open>refresh\<close>; when
  it runs with a non-empty identifier and fetching enabled it calls \<open>refresh()\<close>, the
  library's bound \<open>mutate\<close>, which acts on the current key.
\<close>

datatype swr_call = KeyChanged "string option" | Mutate "string option"

definition hook_render :: "(string \<times> bool) option \<Rightarrow> string \<Rightarrow> bool \<Rightarrow> swr_call list" where
  "hook_render prev productId enabled =
     (if map_option (\<lambda>(p, e). apiUrl p e) prev = Some (apiUrl productId enabled) then []
      else [KeyChanged (apiUrl productId enabled)]) @
     (if prev = Some (productId, enabled) then []
      else if productId \<noteq> [] \<and> enabled then [Mutate (apiUrl productId enabled)]
      else [])"

definition refetch :: "string \<Rightarrow> bool \<Rightarrow> swr_call list" where
  "refetch productId enabled = (if enabled then [Mutate (apiUrl productId enabled)] else [])"

text \<open>
  The cache library is an external collaborator; this is its documented contract for a
  key it holds no data for. With a \<open>null\<close> key it never calls the fetcher. Given a new key
  it calls the fetcher once. A bound \<open>mutate()\<close> without arguments revalidates the key:
  it discards the marker of a request in flight and calls the fetcher again.
\<close>

fun swr_requests :: "swr_call \<Rightarrow> string list" where
  "swr_requests (KeyChanged (Some url)) = [url]"
| "swr_requests (KeyChanged None) = []"
| "swr_requests (Mutate (Some url)) = [url]"
| "swr_requests (Mutate None) = []"

definition fetches :: "swr_call list \<Rightarrow> string list" where
  "fetches calls = concat (map swr_requests calls)"

section \<open>The image manager\<close>

text \<open>
  The modal configures the image manager hook with \<open>maxImages: 10\<close> and
  \<open>maxFileSizeMB: 5\<close>.
\<close>

definition maxImages :: nat where
  "maxImages = 10"

definition maxFileSizeMB :: nat where
  "maxFileSizeMB = 5"

text \<open>
  The image manager hook itself (\<open>hooks/use-image-handler\<close>) is not among the sources,
  only its caller is. Everything below in this section is modelled from the spec: its
  data model of an image entry (section 3) and its contract for the operations
  (section 4.3).
\<close>

text \<open>
  Modelled from the spec: the upload status of an entry, missing with the hook, is one of
  pending, uploading, uploaded and failed.
\<close>

datatype upload_status = Pending | Uploading | Uploaded | Failed

text \<open>
  Modelled from the spec: the local file of an entry, missing with the hook: a binary
  payload, of which only the name and the size matter here, and a preview handle.
\<close>

record local_file =
  file_name :: string
  size_bytes :: nat
  preview_handle :: string

text \<open>
  Modelled from the spec: the tag of an entry, missing with the hook: an existing remote
  reference, or a local file with its payload.
\<close>

datatype entry_kind = ExistingRemote | PendingLocal local_file

text \<open>
  Modelled from the spec: the image entry, missing with the hook. Its \<open>url\<close> is the remote
  URL, or the preview handle of a local file until the upload gives it its final URL.
  \<open>position\<close> defines the display and submission order.
\<close>

record image_entry =
  entry_id :: string
  kind :: entry_kind
  url :: string
  status :: upload_status
  position :: nat

text \<open>
  Modelled from the spec: the "is main" flag, missing with the hook, is derived: the main
  image is the entry at position 0.
\<close>

definition is_main :: "image_entry \<Rightarrow> bool" where
  "is_main e = (position e = 0)"

text \<open>
  Modelled from the spec: the invariant of the hook's image list (section 4.3), in two
  parts. The positions are unique, zero-based and without gaps.
\<close>

definition valid_positions :: "nat list \<Rightarrow> bool" where
  "valid_positions ps = (distinct ps \<and> set ps = {0..<length ps})"

text \<open>
  Modelled from the spec: the invariant of the hook's image list, second part: there are
  at most \<open>maxImages\<close> entries.
\<close>

definition valid_images :: "image_entry list \<Rightarrow> bool" where
  "valid_images imgs = (valid_positions (map position imgs) \<and> length imgs \<le> maxImages)"

text \<open>
  Modelled from the spec: the errors that \<open>addFiles\<close> of the missing hook reports instead
  of throwing, each with the name of the rejected file.
\<close>

datatype validation_error = FileTooLarge string | TooManyImages string

text \<open>
  Modelled from the spec: the pending entry that \<open>addFiles\<close> of the missing hook makes of
  an accepted file. The preview handle serves as its id and as its URL for the time
  being.
\<close>

definition new_entry :: "local_file \<Rightarrow> nat \<Rightarrow> image_entry" where
  "new_entry f pos =
     \<lparr>entry_id = preview_handle f, kind = PendingLocal f, url = preview_handle f,
      status = Pending, position = pos\<rparr>"

text \<open>
  Modelled from the spec: one file of \<open>addFiles(files)\<close> of the missing hook. A file
  exceeding \<open>maxFileSizeMB\<close> is rejected, and so is one whose addition would exceed
  \<open>maxImages\<close> entries in total; an accepted file becomes a pending entry appended at the
  end, at the position after the last.
\<close>

definition addFile ::
  "image_entry list \<times> validation_error list \<Rightarrow> local_file \<Rightarrow>
   image_entry list \<times> validation_error list" where
  "addFile acc f =
     (case acc of (imgs, errs) \<Rightarrow>
        if size_bytes f > maxFileSizeMB * 1024 * 1024
        then (imgs, errs @ [FileTooLarge (file_name f)])
        else if length imgs + 1 > maxImages
        then (imgs, errs @ [TooManyImages (file_name f)])
        else (imgs @ [new_entry f (length imgs)], errs))"

text \<open>
  Modelled from the spec: \<open>addFiles(files)\<close> of the missing hook takes the files one after
  the other and returns the updated list with the errors reported.
\<close>

definition addFiles ::
  "local_file list \<Rightarrow> image_entry list \<Rightarrow> image_entry list \<times> validation_error list" where
  "addFiles files imgs = foldl addFile (imgs, []) files"

text \<open>
  Modelled from the spec: how \<open>remove\<close>, \<open>setMain\<close> and \<open>reorder\<close> of the missing hook find
  the entry that an id designates: the first entry with that id.
\<close>

definition find_entry :: "string \<Rightarrow> image_entry list \<Rightarrow> image_entry option" where
  "find_entry entryId imgs = find (\<lambda>e. entry_id e = entryId) imgs"

text \<open>
  Modelled from the spec: the three operations of the missing hook shift positions; this
  applies a shift to every entry of a list.
\<close>

definition renumber :: "(nat \<Rightarrow> nat) \<Rightarrow> image_entry list \<Rightarrow> image_entry list" where
  "renumber f imgs = map (\<lambda>e. e\<lparr>position := f (position e)\<rparr>) imgs"

text \<open>
  Modelled from the spec: the shift of \<open>remove\<close> of the missing hook. The entries behind
  the removed position \<open>p\<close> move up by one.
\<close>

definition after_removal :: "nat \<Rightarrow> nat \<Rightarrow> nat" where
  "after_removal p q = (if p < q then q - 1 else q)"

text \<open>
  Modelled from the spec: \<open>remove(entryId)\<close> of the missing hook deletes the entry; after
  the removal of the main image the next entry is at position 0 and so is the main
  image, without a call of \<open>setMain\<close>. An id that designates no entry removes nothing.
\<close>

definition remove :: "string \<Rightarrow> image_entry list \<Rightarrow> image_entry list" where
  "remove entryId imgs =
     (case find_entry entryId imgs of
        None \<Rightarrow> imgs
      | Some e \<Rightarrow>
          renumber (after_removal (position e))
            (filter (\<lambda>x. position x \<noteq> position e) imgs))"

text \<open>
  Modelled from the spec: the shift of \<open>setMain\<close> of the missing hook. The entry at \<open>p\<close>
  goes to position 0, and the entries before it go back by one.
\<close>

definition to_front :: "nat \<Rightarrow> nat \<Rightarrow> nat" where
  "to_front p q = (if q = p then 0 else if q < p then q + 1 else q)"

text \<open>
  Modelled from the spec: \<open>setMain(entryId)\<close> of the missing hook moves the designated
  entry to position 0, shifting the others back by one and preserving the relative order
  of the rest. An id that designates no entry moves nothing.
\<close>

definition setMain :: "string \<Rightarrow> image_entry list \<Rightarrow> image_entry list" where
  "setMain entryId imgs =
     (case find_entry entryId imgs of
        None \<Rightarrow> imgs
      | Some e \<Rightarrow> renumber (to_front (position e)) imgs)"

text \<open>
  Modelled from the spec: the shift of \<open>reorder\<close> of the missing hook. The entry at \<open>p\<close>
  goes to \<open>t\<close>, and all entries between the old and the new position shift by one slot,
  towards the old one.
\<close>

definition moved :: "nat \<Rightarrow> nat \<Rightarrow> nat \<Rightarrow> nat" where
  "moved p t q =
     (if q = p then t
      else if p < q \<and> q \<le> t then q - 1
      else if t \<le> q \<and> q < p then q + 1
      else q)"

text \<open>
  Modelled from the spec: \<open>reorder(sourceId, targetPosition)\<close> of the missing hook, the
  drag and drop, moves one entry to a new position. The target of a drop is a slot of the
  list: a target position that the list does not have moves nothing, and neither does an
  id that designates no entry.
\<close>

definition reorder :: "string \<Rightarrow> nat \<Rightarrow> image_entry list \<Rightarrow> image_entry list" where
  "reorder sourceId targetPosition imgs =
     (case find_entry sourceId imgs of
        None \<Rightarrow> imgs
      | Some e \<Rightarrow>
          if targetPosition < length imgs
          then renumber (moved (position e) targetPosition) imgs
          else imgs)"

text \<open>
  Modelled from the spec: the four list operations of the missing hook as data, so that
  a sequence of them can be applied.
\<close>

datatype image_op =
    AddFiles "local_file list"
  | Remove string
  | Reorder string nat
  | SetMain string

text \<open>
  Modelled from the spec: one operation of the missing hook, returning the updated list.
\<close>

fun apply_op :: "image_entry list \<Rightarrow> image_op \<Rightarrow> image_entry list" where
  "apply_op imgs (AddFiles files) = fst (addFiles files imgs)"
| "apply_op imgs (Remove entryId) = remove entryId imgs"
| "apply_op imgs (Reorder sourceId targetPosition) = reorder sourceId targetPosition imgs"
| "apply_op imgs (SetMain entryId) = setMain entryId imgs"

text \<open>
  Modelled from the spec: a sequence of operations of the missing hook, applied from
  left to right.
\<close>

definition apply_ops :: "image_entry list \<Rightarrow> image_op list \<Rightarrow> image_entry list" where
  "apply_ops imgs ops = foldl apply_op imgs ops"

text \<open>
  Modelled from the spec: the position order in which \<open>getImageUrls\<close> of the missing hook
  reads the entries; this inserts an entry into a list that is in position order.
\<close>

fun insert_by_position :: "image_entry \<Rightarrow> image_entry list \<Rightarrow> image_entry list" where
  "insert_by_position e [] = [e]"
| "insert_by_position e (x # xs) =
     (if position e \<le> position x then e # x # xs else x # insert_by_position e xs)"

text \<open>
  Modelled from the spec: the entries of the missing hook's list, in position order.
\<close>

definition in_position_order :: "image_entry list \<Rightarrow> image_entry list" where
  "in_position_order imgs = foldr insert_by_position imgs []"

text \<open>
  Modelled from the spec: \<open>getImageUrls()\<close> of the missing hook is a pure read of the
  current entry URLs in position order.
\<close>

definition getImageUrls :: "image_entry list \<Rightarrow> string list" where
  "getImageUrls imgs = map url (in_position_order imgs)"

text \<open>
  Modelled from the spec: the failure that \<open>beginUpload\<close> of the missing hook reports for
  the whole batch.
\<close>

datatype upload_error = UploadFailed

text \<open>
  Modelled from the spec: the pending entries of the missing hook's list are the local
  files whose status is still pending; this gives the file to upload.
\<close>

definition pending_file :: "image_entry \<Rightarrow> local_file option" where
  "pending_file e =
     (case kind e of
        ExistingRemote \<Rightarrow> None
      | PendingLocal f \<Rightarrow> if status e = Pending then Some f else None)"

text \<open>
  Modelled from the spec: what \<open>beginUpload\<close> of the missing hook does with one entry. For
  a pending entry it invokes the upload collaborator, a parameter here: its outcome for
  each file. Success gives the entry its final URL and the status \<open>Uploaded\<close>.
\<close>

definition upload_entry ::
  "(local_file \<Rightarrow> js_error + string) \<Rightarrow> image_entry \<Rightarrow> js_error + image_entry" where
  "upload_entry upload e =
     (case pending_file e of
        None \<Rightarrow> Inr e
      | Some f \<Rightarrow>
          (case upload f of
             Inl err \<Rightarrow> Inl err
           | Inr final_url \<Rightarrow> Inr (e\<lparr>url := final_url, status := Uploaded\<rparr>)))"

text \<open>
  Modelled from the spec: the batch of \<open>beginUpload\<close> of the missing hook: every entry in
  turn, the whole failing when a single upload fails.
\<close>

fun upload_all ::
  "(local_file \<Rightarrow> js_error + string) \<Rightarrow> image_entry list \<Rightarrow> js_error + image_entry list" where
  "upload_all upload [] = Inr []"
| "upload_all upload (e # es) =
     (case upload_entry upload e of
        Inl err \<Rightarrow> Inl err
      | Inr e' \<Rightarrow>
          (case upload_all upload es of
             Inl err \<Rightarrow> Inl err
           | Inr es' \<Rightarrow> Inr (e' # es')))"

text \<open>
  Modelled from the spec: when \<open>beginUpload\<close> of the missing hook fails, the entire batch
  is reported as failed: every pending entry gets the status \<open>Failed\<close>.
\<close>

definition mark_failed :: "image_entry \<Rightarrow> image_entry" where
  "mark_failed e = (case pending_file e of None \<Rightarrow> e | Some f \<Rightarrow> e\<lparr>status := Failed\<rparr>)"

text \<open>
  Modelled from the spec: \<open>beginUpload()\<close> of the missing hook returns the updated list
  and its result. When every upload has succeeded the result is the URLs of all entries
  in position order; on any single failure it is the failure, without URLs, and none of
  the pending entries is promoted.
\<close>

definition beginUpload ::
  "(local_file \<Rightarrow> js_error + string) \<Rightarrow> image_entry list \<Rightarrow>
   image_entry list \<times> (upload_error + string list)" where
  "beginUpload upload imgs =
     (case upload_all upload imgs of
        Inl err \<Rightarrow> (map mark_failed imgs, Inl UploadFailed)
      | Inr imgs' \<Rightarrow> (imgs', Inr (getImageUrls imgs')))"

section \<open>Derived notions and sample inputs\<close>



text \<open>
  Modelled from the spec: the upload collaborator of the missing hook succeeds on an
  entry, when it succeeds on its file or the entry is not pending.
\<close>

definition upload_succeeds :: "(local_file \<Rightarrow> js_error + string) \<Rightarrow> image_entry \<Rightarrow> bool" where
  "upload_succeeds upload e =
     (case pending_file e of
        None \<Rightarrow> True
      | Some f \<Rightarrow> (case upload f of Inl err \<Rightarrow> False | Inr final_url \<Rightarrow> True))"

text \<open>A legacy listing in the form, without \<open>title\<close> but with \<open>name\<close>.\<close>

definition sample_form :: ProductEditData where
  "sample_form =
     \<lparr>categoryGroup = None, category = Some ''Furniture'', subCategory = None,
      childCategory = None, title = None, name = Some ''Chair'', location = Some ''Accra'',
      attributes = None, description = Some ''Oak'', price = Some (PriceString ''20''),
      negotiable = Some (NegotiableString ''true''), contactNumber = None\<rparr>"

text \<open>An image manager that reports two URLs, and one whose \<open>getImageUrls\<close> throws.\<close>

definition sample_urls :: "unit list \<Rightarrow> js_error + string list" where
  "sample_urls imgs = Inr [''a.jpg'', ''blob:preview-1'']"

definition failing_urls :: "unit list \<Rightarrow> js_error + string list" where
  "failing_urls imgs = Inl (Error ''images unavailable'')"

definition ready_state :: "unit modal_state" where
  "ready_state = modal_init (Some sample_form) [(), ()] False None"


text \<open>
  A legacy listing without \<open>title\<close> but with \<open>name\<close>, fetched and shown in an open modal
  whose form has been seeded from it.
\<close>

definition legacy_listing :: Listing where
  "legacy_listing =
     \<lparr>listing_id = ''p1'', listing_title = None, listing_name = Some ''Chair'',
      listing_description = Some ''Oak'', listing_location = Some ''Accra'',
      listing_price = Some 20, listing_negotiable = Some True,
      listing_contactNumber = None, listing_categoryGroup = None,
      listing_category = Some ''Furniture'', listing_subCategory = None,
      listing_childCategory = None, listing_attributes = None,
      listing_images = [''a.jpg'']\<rparr>"

definition legacy_props :: "Listing modal_props" where
  "legacy_props =
     \<lparr>isOpen = True, product = None, externalLoading = None, externalError = None\<rparr>"

definition legacy_fetch :: "Listing product_data" where
  "legacy_fetch =
     \<lparr>newProductData = Some legacy_listing, isLoadingProduct = False, errorProduct = None\<rparr>"

definition legacy_state :: "unit modal_state" where
  "legacy_state = modal_init (Some (initialize legacy_listing)) [] False None"

text \<open>The image manager reports that an upload has failed.\<close>

definition upload_failed_state :: "unit modal_state" where
  "upload_failed_state = modal_init (Some sample_form) [(), ()] False (Some ''Upload failed'')"

text \<open>
  An underlying request that, depending on the URL, throws, returns \<open>null\<close>, returns a
  response that is not JSON, one whose body is the number 42, or a listing in its
  envelope.
\<close>

definition sample_fetcher :: "string \<Rightarrow> fetcher_outcome" where
  "sample_fetcher u =
     (if u = ''/api/listing-details?id=offline'' then FetcherThrows (Error ''offline'')
      else if u = ''/api/listing-details?id=null'' then FetcherReturns (Plain JNull)
      else if u = ''/api/listing-details?id=html'' then FetcherReturns (Response None)
      else if u = ''/api/listing-details?id=42''
      then FetcherReturns (Response (Some (JNumber 42)))
      else FetcherReturns
             (Response (Some (JObject [(''data'', JObject [(''title'', JString ''Lamp'')])]))))"

text \<open>The fetch has failed, the caller has supplied a fallback listing.\<close>

definition fallback_props :: "string modal_props" where
  "fallback_props =
     \<lparr>isOpen = True, product = Some ''fallback listing'', externalLoading = None,
      externalError = None\<rparr>"

definition failed_fetch :: "string product_data" where
  "failed_fetch =
     \<lparr>newProductData = None, isLoadingProduct = False,
      errorProduct = Some (ErrorObject ''Error'' ''No response from server'')\<rparr>"

definition unseeded_state :: "unit modal_state" where
  "unseeded_state = modal_init None [] False None"

text \<open>Three images, stored out of position order, and files to add.\<close>

definition chair_jpg :: local_file where
  "chair_jpg = \<lparr>file_name = ''chair.jpg'', size_bytes = 204800, preview_handle = ''blob:1''\<rparr>"

definition table_jpg :: local_file where
  "table_jpg = \<lparr>file_name = ''table.jpg'', size_bytes = 409600, preview_handle = ''blob:2''\<rparr>"

definition lamp_jpg :: local_file where
  "lamp_jpg = \<lparr>file_name = ''lamp.jpg'', size_bytes = 1024, preview_handle = ''blob:4''\<rparr>"

definition huge_png :: local_file where
  "huge_png = \<lparr>file_name = ''huge.png'', size_bytes = 6000000, preview_handle = ''blob:3''\<rparr>"

definition existing_a :: image_entry where
  "existing_a =
     \<lparr>entry_id = ''img-a'', kind = ExistingRemote, url = ''a.jpg'', status = Uploaded,
      position = 0\<rparr>"

definition sample_images :: "image_entry list" where
  "sample_images = [new_entry chair_jpg 1, existing_a, new_entry table_jpg 2]"

definition sample_ops :: "image_op list" where
  "sample_ops =
     [AddFiles [huge_png, lamp_jpg], SetMain ''blob:2'', Reorder ''img-a'' 3, Remove ''blob:2'']"

definition upload_ok :: "local_file \<Rightarrow> js_error + string" where
  "upload_ok f = Inr (''https://cdn.example/'' @ file_name f)"

definition upload_table_fails :: "local_file \<Rightarrow> js_error + string" where
  "upload_table_fails f =
     (if file_name f = ''table.jpg'' then Inl (Error ''413'')
      else Inr (''https://cdn.example/'' @ file_name f))"

section \<open>Properties of the submit flow\<close>

lemma map_imageUrl_image_refs: "map imageUrl (image_refs urls) = urls"
proof -
  have "map imageUrl (image_refs urls) = map snd (enumerate 0 urls)"
    by (simp add: image_refs_def case_prod_unfold comp_def)
  then show ?thesis by simp
qed

lemma nth_image_refs:
  "i < length urls \<Longrightarrow>
   image_refs urls ! i = \<lparr>imageUrl = urls ! i, image_id = ''image-'' @ string_of_nat i\<rparr>"
  by (simp add: image_refs_def nth_enumerate_eq)







text \<open>
  Claim C1, as amended, for the handler of the render that shows the state \<open>st\<close>. The
  submit flow runs no upload phase. \<open>handleSubmit\<close> reads the image URLs that the image
  manager reports at that moment and builds the images of the
  request from exactly those, in order, whatever the manager's \<open>isUploading\<close> and
  \<open>uploadError\<close> are; what keeps a submission from starting during an upload is the submit
  control, disabled while \<open>isUploading\<close> is set. When reading the URLs throws, the failure
  is reported as "Failed to update product.", nothing is awaited, no update request is
  made and the state is ready again.
\<close>

theorem submit_reads_current_urls:
  assumes "formData st = Some fd" and "\<not> isSubmitting st"
  shows "handleSubmit_begin g pid (st\<lparr>isUploading := u, uploadError := e\<rparr>)
             (st\<lparr>isUploading := u, uploadError := e\<rparr>) =
           (handleSubmit_begin g pid st st)\<lparr>isUploading := u, uploadError := e\<rparr> \<and>
         (g (images st) = Inr urls \<longrightarrow>
            handleSubmit_begin g pid st st =
              st\<lparr>isSubmitting := True,
                 awaiting := awaiting st @ [reqBody pid fd urls],
                 effects := effects st @ [CallOnUpdate (reqBody pid fd urls)]\<rparr> \<and>
            map imageUrl (req_images (reqBody pid fd urls)) = urls) \<and>
         (g (images st) = Inl err \<longrightarrow>
            handleSubmit_begin g pid st st =
              st\<lparr>effects := effects st @
                    [ConsoleError ''Update error:'' err,
                     ToastError ''Failed to update product.'']\<rparr>) \<and>
         (render props hook st = EditForm v \<longrightarrow> submit_disabled v = isUploading st)"
proof -
  have "handleSubmit_begin g pid (st\<lparr>isUploading := u, uploadError := e\<rparr>)
             (st\<lparr>isUploading := u, uploadError := e\<rparr>) =
          (handleSubmit_begin g pid st st)\<lparr>isUploading := u, uploadError := e\<rparr>"
    using assms by (simp add: handleSubmit_begin_def Let_def split: sum.splits)
  moreover have "g (images st) = Inr urls \<longrightarrow>
            handleSubmit_begin g pid st st =
              st\<lparr>isSubmitting := True,
                 awaiting := awaiting st @ [reqBody pid fd urls],
                 effects := effects st @ [CallOnUpdate (reqBody pid fd urls)]\<rparr> \<and>
            map imageUrl (req_images (reqBody pid fd urls)) = urls"
    using assms
    by (simp add: handleSubmit_begin_def Let_def reqBody_def map_imageUrl_image_refs)
  moreover have "g (images st) = Inl err \<longrightarrow>
            handleSubmit_begin g pid st st =
              st\<lparr>effects := effects st @
                    [ConsoleError ''Update error:'' err,
                     ToastError ''Failed to update product.'']\<rparr>"
    using assms by (simp add: handleSubmit_begin_def Let_def)
  moreover have "render props hook st = EditForm v \<longrightarrow> submit_disabled v = isUploading st"
    using assms by (auto simp: render_def split: if_splits option.splits)
  ultimately show ?thesis by blast
qed

theorem submit_reads_current_urls_witness:
  "formData upload_failed_state = Some sample_form \<and> \<not> isSubmitting upload_failed_state \<and>
   handleSubmit_begin sample_urls ''p1'' upload_failed_state upload_failed_state =
     upload_failed_state
       \<lparr>isSubmitting := True,
        awaiting := [reqBody ''p1'' sample_form [''a.jpg'', ''blob:preview-1'']],
        effects := [CallOnUpdate (reqBody ''p1'' sample_form [''a.jpg'', ''blob:preview-1''])]\<rparr> \<and>
   handleSubmit_begin failing_urls ''p1'' upload_failed_state upload_failed_state =
     upload_failed_state
       \<lparr>effects :=
          [ConsoleError ''Update error:'' (Error ''images unavailable''),
           ToastError ''Failed to update product.'']\<rparr>"
proof -
  have a: "formData upload_failed_state = Some sample_form"
    and b: "\<not> isSubmitting upload_failed_state"
    and c: "awaiting upload_failed_state = []"
    and d: "effects upload_failed_state = []"
    by (simp_all add: upload_failed_state_def modal_init_def)
  have ok: "sample_urls (images upload_failed_state) = Inr [''a.jpg'', ''blob:preview-1'']"
    by (simp add: sample_urls_def)
  have bad: "failing_urls (images upload_failed_state) = Inl (Error ''images unavailable'')"
    by (simp add: failing_urls_def)
  from submit_reads_current_urls
         [where st = upload_failed_state and g = sample_urls and pid = "''p1''"
            and urls = "[''a.jpg'', ''blob:preview-1'']" and u = False and e = None
            and err = "Error ''images unavailable''" and props = fallback_props
            and hook = failed_fetch
            and v = "\<lparr>title_value = [], cancel_disabled = False, submit_disabled = False,
                     submit_label = []\<rparr>", OF a b]
       submit_reads_current_urls
         [where st = upload_failed_state and g = failing_urls and pid = "''p1''"
            and urls = "[]" and u = False and e = None
            and err = "Error ''images unavailable''" and props = fallback_props
            and hook = failed_fetch
            and v = "\<lparr>title_value = [], cancel_disabled = False, submit_disabled = False,
                     submit_label = []\<rparr>", OF a b]
       a b c d ok bad
  show ?thesis by simp
qed

text \<open>
  Claim C1 as stated fails: with an upload reported as failed, a submission still hands
  the request to the update collaborator, and reports no error.
\<close>

theorem submit_after_failed_upload_counterexample:
  "uploadError upload_failed_state = Some ''Upload failed'' \<and>
   effects (handleSubmit_begin sample_urls ''p1'' upload_failed_state upload_failed_state) =
     [CallOnUpdate (reqBody ''p1'' sample_form [''a.jpg'', ''blob:preview-1''])] \<and>
   isSubmitting (handleSubmit_begin sample_urls ''p1'' upload_failed_state upload_failed_state)"
  by (simp add: upload_failed_state_def modal_init_def handleSubmit_begin_def sample_urls_def
      Let_def)

text \<open>
  Claim C3. In the assembled request, a boolean \<open>negotiable\<close> is passed through unchanged,
  the string "true" gives \<open>True\<close>, and every other string, "false" among them, gives
  \<open>False\<close>.
\<close>

theorem negotiable_coercion:
  "req_negotiable (reqBody pid (fd\<lparr>negotiable := Some (NegotiableBool b)\<rparr>) urls) = b \<and>
   req_negotiable (reqBody pid (fd\<lparr>negotiable := Some (NegotiableString s)\<rparr>) urls) =
     (s = ''true'') \<and>
   req_negotiable (reqBody pid (fd\<lparr>negotiable := Some (NegotiableString ''false'')\<rparr>) urls) =
     False"
  by (simp add: reqBody_def negotiable_of_def)

theorem negotiable_coercion_witness:
  "req_negotiable
     (reqBody ''p1'' (sample_form\<lparr>negotiable := Some (NegotiableBool True)\<rparr>) []) = True \<and>
   req_negotiable
     (reqBody ''p1'' (sample_form\<lparr>negotiable := Some (NegotiableString ''true'')\<rparr>) []) = True \<and>
   req_negotiable
     (reqBody ''p1'' (sample_form\<lparr>negotiable := Some (NegotiableString ''yes'')\<rparr>) []) = False"
  using negotiable_coercion
          [where pid = "''p1''" and fd = sample_form and b = True and urls = "[]"
             and s = "''true''"]
        negotiable_coercion
          [where pid = "''p1''" and fd = sample_form and b = True and urls = "[]"
             and s = "''yes''"]
  by simp




text \<open>
  Claim C5. When the update collaborator rejects, the error is logged and shown as
  "Failed to update product.", and the state is the one before the submission but for the
  record of the calls: ready again, with the form values and the image list unchanged,
  the success flag untouched, no timer set and so no call of the close callback.
\<close>

theorem update_rejected_keeps_state:
  assumes "formData st = Some fd" and "\<not> isSubmitting st" and "awaiting st = []"
    and "g (images st) = Inr urls"
  shows "handleSubmit g pid (Rejected err) st =
           st\<lparr>effects := effects st @
                 [CallOnUpdate (reqBody pid fd urls),
                  ConsoleError ''Update error:'' err,
                  ToastError ''Failed to update product.'']\<rparr>"
  using assms
  by (simp add: handleSubmit_def handleSubmit_begin_def handleSubmit_settle_def Let_def)

theorem update_rejected_keeps_state_witness:
  "formData ready_state = Some sample_form \<and> \<not> isSubmitting ready_state \<and>
   awaiting ready_state = [] \<and>
   sample_urls (images ready_state) = Inr [''a.jpg'', ''blob:preview-1''] \<and>
   handleSubmit sample_urls ''p1'' (Rejected (Error ''500'')) ready_state =
     ready_state\<lparr>effects :=
       [CallOnUpdate (reqBody ''p1'' sample_form [''a.jpg'', ''blob:preview-1'']),
        ConsoleError ''Update error:'' (Error ''500''),
        ToastError ''Failed to update product.'']\<rparr>"
proof -
  have a: "formData ready_state = Some sample_form"
    and b: "\<not> isSubmitting ready_state"
    and c: "awaiting ready_state = []"
    and e: "effects ready_state = []"
    by (simp_all add: ready_state_def modal_init_def)
  have d: "sample_urls (images ready_state) = Inr [''a.jpg'', ''blob:preview-1'']"
    by (simp add: sample_urls_def)
  from update_rejected_keeps_state
         [where st = ready_state and g = sample_urls and pid = "''p1''"
            and err = "Error ''500''", OF a b c d] a b c d e
  show ?thesis by simp
qed

text \<open>
  Claim C7. For every listing without \<open>title\<close>, the title field of the form seeded from
  it is the legacy \<open>name\<close>; the title input of the rendered form shows that name (the empty
  string when the listing has no \<open>name\<close> either), and the title of the request is that
  name. The two expressions of the modal fall back in the same way on any form values
  that have no \<open>title\<close>.
\<close>

theorem title_falls_back_to_name:
  assumes "listing_title l = None"
  shows "title (initialize l) = listing_name l \<and>
         (isOpen props \<and> \<not> isLoading props hook \<and> productData props hook \<noteq> None \<and>
          formData st = Some (initialize l) \<longrightarrow>
            (\<exists>v. render props hook st = EditForm v \<and>
                 title_value v = or_empty (listing_name l))) \<and>
         req_title (reqBody pid (initialize l) urls) = listing_name l \<and>
         (title fd = None \<longrightarrow>
            req_title (reqBody pid fd urls) = name fd \<and>
            (formData st = Some fd \<and> render props hook st = EditForm v \<longrightarrow>
               title_value v = or_empty (name fd)))"
proof -
  have seeded: "title (initialize l) = listing_name l" and kept: "name (initialize l) = listing_name l"
    using assms by (simp_all add: initialize_def)
  have shown: "title_input_value fd' = or_empty (name fd')" if "title fd' = name fd' \<or> title fd' = None"
    for fd'
    using that
    by (auto simp: title_input_value_def js_or_def or_empty_def split: option.splits)
  have sent: "req_title (reqBody pid fd' urls) = name fd'" if "title fd' = name fd' \<or> title fd' = None"
    for fd'
    using that by (auto simp: reqBody_def js_or_def split: option.splits)
  have "\<exists>v. render props hook st = EditForm v \<and> title_value v = or_empty (listing_name l)"
    if "isOpen props" and "\<not> isLoading props hook" and "productData props hook \<noteq> None"
      and "formData st = Some (initialize l)"
    using that shown [of "initialize l"] seeded kept
    by (auto simp: render_def split: option.splits)
  moreover have "title_value v = or_empty (name fd)"
    if "title fd = None" and "formData st = Some fd" and "render props hook st = EditForm v"
    using that shown [of fd]
    by (auto simp: render_def split: if_splits option.splits)
  ultimately show ?thesis
    using seeded kept sent [of "initialize l"] sent [of fd] by auto
qed

theorem title_falls_back_to_name_witness:
  "listing_title legacy_listing = None \<and> listing_name legacy_listing = Some ''Chair'' \<and>
   title (initialize legacy_listing) = Some ''Chair'' \<and>
   (\<exists>v. render legacy_props legacy_fetch legacy_state = EditForm v \<and> title_value v = ''Chair'') \<and>
   req_title (reqBody ''p1'' (initialize legacy_listing) [''a.jpg'']) = Some ''Chair'' \<and>
   title sample_form = None \<and>
   req_title (reqBody ''p1'' sample_form [''a.jpg'']) = Some ''Chair''"
proof -
  have h: "listing_title legacy_listing = None"
    and n: "listing_name legacy_listing = Some ''Chair''"
    by (simp_all add: legacy_listing_def)
  have o: "isOpen legacy_props" by (simp add: legacy_props_def)
  have q: "\<not> isLoading legacy_props legacy_fetch"
    by (simp add: isLoading_def nullish_def legacy_props_def legacy_fetch_def)
  have d: "productData legacy_props legacy_fetch \<noteq> None"
    by (simp add: productData_def legacy_fetch_def)
  have f: "formData legacy_state = Some (initialize legacy_listing)"
    by (simp add: legacy_state_def modal_init_def)
  have t: "title sample_form = None" and m: "name sample_form = Some ''Chair''"
    by (simp_all add: sample_form_def)
  from title_falls_back_to_name
         [OF h, where props = legacy_props and hook = legacy_fetch and st = legacy_state
            and pid = "''p1''" and urls = "[''a.jpg'']" and fd = sample_form
            and v = "\<lparr>title_value = [], cancel_disabled = False, submit_disabled = False,
                     submit_label = []\<rparr>"]
       h n o q d f t m
  show ?thesis by (simp add: or_empty_def)
qed

section \<open>Properties of the fetcher and of rendering\<close>

text \<open>
  Claim C8, as amended. The fetcher fails in exactly three cases: the underlying request
  throws, and its error is passed on; the request returns a falsy value, which gives the
  error "No response from server"; the request returns a \<open>Response\<close> whose body is not
  JSON, which gives the rejection of \<open>res.json()\<close>. In every other case it succeeds with
  the decoded body, or with the value itself when that is not a \<open>Response\<close>, whatever
  the shape of that value is: nothing checks the envelope.
\<close>

theorem jsonFetcher_outcomes:
  "(jsonFetcher fetcher u = Inl (FetcherError err) \<longleftrightarrow> fetcher u = FetcherThrows err) \<and>
   (jsonFetcher fetcher u = Inl NoResponse \<longleftrightarrow>
      (\<exists>res. fetcher u = FetcherReturns res \<and> \<not> truthy res)) \<and>
   (jsonFetcher fetcher u = Inl JsonSyntaxError \<longleftrightarrow>
      fetcher u = FetcherReturns (Response None)) \<and>
   (jsonFetcher fetcher u = Inr v \<longleftrightarrow>
      fetcher u = FetcherReturns (Response (Some v)) \<or>
      (fetcher u = FetcherReturns (Plain v) \<and> truthy (Plain v)))"
  by (auto simp: jsonFetcher_def split: fetcher_outcome.splits fetched.splits option.splits)

theorem jsonFetcher_outcomes_witness:
  "jsonFetcher sample_fetcher ''/api/listing-details?id=offline'' =
     Inl (FetcherError (Error ''offline'')) \<and>
   jsonFetcher sample_fetcher ''/api/listing-details?id=null'' = Inl NoResponse \<and>
   jsonFetcher sample_fetcher ''/api/listing-details?id=html'' = Inl JsonSyntaxError \<and>
   jsonFetcher sample_fetcher ''/api/listing-details?id=p1'' =
     Inr (JObject [(''data'', JObject [(''title'', JString ''Lamp'')])])"
proof -
  have a: "sample_fetcher ''/api/listing-details?id=offline'' = FetcherThrows (Error ''offline'')"
    and b: "sample_fetcher ''/api/listing-details?id=null'' = FetcherReturns (Plain JNull)"
    and c: "sample_fetcher ''/api/listing-details?id=html'' = FetcherReturns (Response None)"
    and d: "sample_fetcher ''/api/listing-details?id=p1'' =
              FetcherReturns
                (Response (Some (JObject [(''data'', JObject [(''title'', JString ''Lamp'')])])))"
    by (simp_all add: sample_fetcher_def)
  from jsonFetcher_outcomes
         [where fetcher = sample_fetcher and u = "''/api/listing-details?id=offline''"
            and err = "Error ''offline''" and v = JNull]
       jsonFetcher_outcomes
         [where fetcher = sample_fetcher and u = "''/api/listing-details?id=null''"
            and err = "Error ''offline''" and v = JNull]
       jsonFetcher_outcomes
         [where fetcher = sample_fetcher and u = "''/api/listing-details?id=html''"
            and err = "Error ''offline''" and v = JNull]
       jsonFetcher_outcomes
         [where fetcher = sample_fetcher and u = "''/api/listing-details?id=p1''"
            and err = "Error ''offline''"
            and v = "JObject [(''data'', JObject [(''title'', JString ''Lamp'')])]"]
       a b c d
  show ?thesis by simp
qed

text \<open>
  Claim C8 as stated fails: a body that decodes to the number 42 is no envelope, and the
  fetcher succeeds with it.
\<close>

theorem jsonFetcher_non_envelope_counterexample:
  "sample_fetcher ''/api/listing-details?id=42'' =
     FetcherReturns (Response (Some (JNumber 42))) \<and>
   jsonFetcher sample_fetcher ''/api/listing-details?id=42'' = Inr (JNumber 42) \<and>
   \<not> is_envelope (JNumber 42)"
  by (simp add: jsonFetcher_def sample_fetcher_def)

text \<open>
  Claim C9, as amended. With an empty identifier or with fetching disabled the hook asks
  for no request: the key it gives the cache library is \<open>null\<close>, its effect does not call
  \<open>refresh\<close>, and \<open>refetch\<close> acts on a \<open>null\<close> key or not at all. On each change of
  \<open>productId\<close> or \<open>enabled\<close> to a non-empty, enabled value the hook gives the library the
  new key and, in its effect, calls \<open>refresh\<close> exactly once. A render with the same
  identifier and flag asks for nothing.
\<close>

theorem hook_fetch_triggers:
  "(productId = [] \<or> \<not> enabled \<longrightarrow>
      set (hook_render prev productId enabled) \<subseteq> {KeyChanged None} \<and>
      set (refetch productId enabled) \<subseteq> {Mutate None} \<and>
      fetches (hook_render prev productId enabled) = [] \<and>
      fetches (refetch productId enabled) = []) \<and>
   (productId \<noteq> [] \<and> enabled \<and> prev \<noteq> Some (productId, enabled) \<longrightarrow>
      hook_render prev productId enabled =
        [KeyChanged (Some (''/api/listing-details?id='' @ productId)),
         Mutate (Some (''/api/listing-details?id='' @ productId))]) \<and>
   hook_render (Some (productId, enabled)) productId enabled = []"
  by (cases prev)
    (auto simp: hook_render_def apiUrl_def fetches_def refetch_def split: if_splits)

theorem hook_fetch_triggers_witness:
  "hook_render (Some (''p1'', True)) [] True = [KeyChanged None] \<and>
   refetch [] True = [Mutate None] \<and>
   fetches (hook_render (Some (''p1'', True)) [] True) = [] \<and>
   fetches (refetch [] True) = [] \<and>
   hook_render (Some (''p1'', True)) ''p2'' True =
     [KeyChanged (Some ''/api/listing-details?id=p2''),
      Mutate (Some ''/api/listing-details?id=p2'')]"
proof -
  have a: "hook_render (Some (''p1'', True)) [] True = [KeyChanged None]"
    by (simp add: hook_render_def apiUrl_def)
  have b: "refetch [] True = [Mutate None]"
    by (simp add: refetch_def apiUrl_def)
  from hook_fetch_triggers
         [where productId = "[]" and enabled = True and prev = "Some (''p1'', True)"]
       hook_fetch_triggers
         [where productId = "''p2''" and enabled = True and prev = "Some (''p1'', True)"]
       a b
  show ?thesis by simp
qed

text \<open>
  Claim C9 as stated fails: when the identifier changes from \<open>p1\<close> to \<open>p2\<close>, the fetcher
  is called for the new key and called again for the \<open>refresh\<close> of the effect.
\<close>

theorem id_change_fetches_twice_counterexample:
  "hook_render (Some (''p1'', True)) ''p2'' True =
     [KeyChanged (Some ''/api/listing-details?id=p2''),
      Mutate (Some ''/api/listing-details?id=p2'')] \<and>
   fetches (hook_render (Some (''p1'', True)) ''p2'' True) =
     [''/api/listing-details?id=p2'', ''/api/listing-details?id=p2''] \<and>
   length (fetches (hook_render (Some (''p1'', True)) ''p2'' True)) \<noteq> 1"
  by (simp add: hook_render_def apiUrl_def fetches_def)

text \<open>
  Claim C10, as amended. In an open modal that is not loading, the error panel is shown
  exactly when there is no product data from the fetch or the prop, or the form values
  are not there yet; otherwise the form is shown. A fetch error plays no part in the
  choice, and when the fetch has given nothing the product data is the fallback prop.
\<close>

theorem no_data_panel_iff:
  assumes "isOpen props" and "\<not> isLoading props hook"
  shows "((\<exists>heading detail. render props hook st = NoDataPanel heading detail) \<longleftrightarrow>
            productData props hook = None \<or> formData st = None) \<and>
         ((\<exists>v. render props hook st = EditForm v) \<longleftrightarrow>
            productData props hook \<noteq> None \<and> formData st \<noteq> None) \<and>
         (newProductData hook = None \<longrightarrow> productData props hook = product props)"
  using assms
  by (auto simp: render_def productData_def split: option.splits)

theorem no_data_panel_iff_witness:
  "isOpen fallback_props \<and> \<not> isLoading fallback_props failed_fetch \<and>
   (\<exists>v. render fallback_props failed_fetch ready_state = EditForm v) \<and>
   productData fallback_props failed_fetch = product fallback_props"
proof -
  have a: "isOpen fallback_props" by (simp add: fallback_props_def)
  have b: "\<not> isLoading fallback_props failed_fetch"
    by (simp add: isLoading_def nullish_def fallback_props_def failed_fetch_def)
  have c: "productData fallback_props failed_fetch \<noteq> None"
    by (simp add: productData_def fallback_props_def failed_fetch_def)
  have d: "formData ready_state \<noteq> None" by (simp add: ready_state_def modal_init_def)
  have e: "newProductData failed_fetch = None" by (simp add: failed_fetch_def)
  from no_data_panel_iff [OF a b, where st = ready_state] a b c d e show ?thesis by simp
qed

text \<open>
  Claim C10 as stated fails: with a fallback product supplied and the fetch failed, the
  error panel is shown as long as the form values are missing.
\<close>

theorem error_panel_despite_fallback_counterexample:
  "productData fallback_props failed_fetch = Some ''fallback listing'' \<and>
   render fallback_props failed_fetch unseeded_state =
     NoDataPanel ''Failed to load product'' ''Error: No response from server''"
  by (simp add: render_def productData_def fallback_props_def failed_fetch_def
      unseeded_state_def modal_init_def isLoading_def nullish_def loadError_def)

section \<open>Properties of the image manager\<close>

lemma valid_positionsI:
  assumes "distinct ps" and "set ps = {0..<m}"
  shows "valid_positions ps"
proof -
  have "card (set ps) = length ps" using assms(1) by (rule distinct_card)
  then have "length ps = m" using assms(2) by simp
  then show ?thesis using assms by (simp add: valid_positions_def)
qed

lemma position_renumber: "map position (renumber f imgs) = map f (map position imgs)"
  by (simp add: renumber_def comp_def)

lemma length_renumber: "length (renumber f imgs) = length imgs"
  by (simp add: renumber_def)

lemma valid_positions_permuted:
  assumes "valid_positions ps"
    and "inj_on f {0..<length ps}"
    and "f ` {0..<length ps} \<subseteq> {0..<length ps}"
  shows "valid_positions (map f ps)"
proof -
  from assms(1) have d: "distinct ps" and s: "set ps = {0..<length ps}"
    by (simp_all add: valid_positions_def)
  have "distinct (map f ps)" using d s assms(2) by (simp add: distinct_map)
  moreover have "f ` {0..<length ps} = {0..<length ps}"
    using assms(2,3) by (intro endo_inj_surj) simp_all
  then have "set (map f ps) = {0..<length ps}" using s by simp
  ultimately show ?thesis by (rule valid_positionsI)
qed

lemma find_entry_in_set: "find_entry entryId imgs = Some e \<Longrightarrow> e \<in> set imgs"
  by (auto simp: find_entry_def find_Some_iff)

lemma valid_position_bound:
  assumes "valid_positions (map position imgs)" and "e \<in> set imgs"
  shows "position e < length imgs"
proof -
  have "position e \<in> set (map position imgs)" using assms(2) by simp
  then have "position e \<in> {0..<length (map position imgs)}"
    using assms(1) unfolding valid_positions_def by blast
  then show ?thesis by simp
qed

lemma to_front_inj: "inj_on (to_front p) {0..<n}"
  by (auto simp: inj_on_def to_front_def split: if_splits)

lemma to_front_range: "p < n \<Longrightarrow> to_front p ` {0..<n} \<subseteq> {0..<n}"
  by (auto simp: to_front_def)

lemma moved_inj: "inj_on (moved p t) {0..<n}"
  by (auto simp: inj_on_def moved_def split: if_splits)

lemma moved_range: "p < n \<Longrightarrow> t < n \<Longrightarrow> moved p t ` {0..<n} \<subseteq> {0..<n}"
  by (auto simp: moved_def)

lemma after_removal_inj: "inj_on (after_removal p) ({0..<n} - {p})"
  by (auto simp: inj_on_def after_removal_def split: if_splits)

lemma after_removal_image:
  assumes "p < n"
  shows "after_removal p ` ({0..<n} - {p}) = {0..<n - 1}"
proof (rule set_eqI, rule iffI)
  fix q assume "q \<in> after_removal p ` ({0..<n} - {p})"
  then show "q \<in> {0..<n - 1}" using assms by (auto simp: after_removal_def split: if_splits)
next
  fix q assume q: "q \<in> {0..<n - 1}"
  show "q \<in> after_removal p ` ({0..<n} - {p})"
  proof (cases "q < p")
    case True
    then have "after_removal p q = q" and "q \<in> {0..<n} - {p}"
      using assms by (auto simp: after_removal_def)
    then show ?thesis by (metis imageI)
  next
    case False
    then have "after_removal p (Suc q) = q" and "Suc q \<in> {0..<n} - {p}"
      using q by (auto simp: after_removal_def)
    then show ?thesis by (metis imageI)
  qed
qed

lemma valid_images_setMain:
  assumes "valid_images imgs"
  shows "valid_images (setMain entryId imgs)"
proof (cases "find_entry entryId imgs")
  case None
  then show ?thesis using assms by (simp add: setMain_def)
next
  case (Some e)
  from assms have v: "valid_positions (map position imgs)" and l: "length imgs \<le> maxImages"
    by (simp_all add: valid_images_def)
  have "position e < length imgs"
    using v Some by (intro valid_position_bound find_entry_in_set)
  then have "valid_positions (map (to_front (position e)) (map position imgs))"
    using v by (intro valid_positions_permuted) (simp_all add: to_front_inj to_front_range)
  then show ?thesis
    using Some l
    by (simp add: setMain_def valid_images_def position_renumber length_renumber
        del: map_map)
qed

lemma valid_images_reorder:
  assumes "valid_images imgs"
  shows "valid_images (reorder sourceId targetPosition imgs)"
proof (cases "find_entry sourceId imgs")
  case None
  then show ?thesis using assms by (simp add: reorder_def)
next
  case (Some e)
  from assms have v: "valid_positions (map position imgs)" and l: "length imgs \<le> maxImages"
    by (simp_all add: valid_images_def)
  show ?thesis
  proof (cases "targetPosition < length imgs")
    case False
    then show ?thesis using Some assms by (simp add: reorder_def)
  next
    case True
    have "position e < length imgs"
      using v Some by (intro valid_position_bound find_entry_in_set)
    then have "valid_positions (map (moved (position e) targetPosition) (map position imgs))"
      using v True by (intro valid_positions_permuted) (simp_all add: moved_inj moved_range)
    then show ?thesis
      using Some True l
      by (simp add: reorder_def valid_images_def position_renumber length_renumber
          del: map_map)
  qed
qed

lemma valid_images_remove:
  assumes "valid_images imgs"
  shows "valid_images (remove entryId imgs)"
proof (cases "find_entry entryId imgs")
  case None
  then show ?thesis using assms by (simp add: remove_def)
next
  case (Some e)
  define p where "p = position e"
  define rest where "rest = filter (\<lambda>x. position x \<noteq> p) imgs"
  from assms have v: "valid_positions (map position imgs)" and l: "length imgs \<le> maxImages"
    by (simp_all add: valid_images_def)
  from v have d: "distinct (map position imgs)"
    and s: "set (map position imgs) = {0..<length imgs}"
    by (simp_all add: valid_positions_def)
  have p: "p < length imgs"
    unfolding p_def using v Some by (intro valid_position_bound find_entry_in_set)
  have pr: "map position rest = filter (\<lambda>q. q \<noteq> p) (map position imgs)"
    by (simp add: rest_def filter_map comp_def)
  have sr: "set (map position rest) = {0..<length imgs} - {p}"
    unfolding pr using s by auto
  have dr: "distinct (map position rest)"
    unfolding pr using d by simp
  have "distinct (map (after_removal p) (map position rest))"
    using dr sr after_removal_inj [of p "length imgs"] by (simp add: distinct_map del: map_map)
  moreover have "set (map (after_removal p) (map position rest)) = {0..<length imgs - 1}"
    using sr after_removal_image [OF p] by (simp del: map_map)
  ultimately have "valid_positions (map (after_removal p) (map position rest))"
    by (rule valid_positionsI)
  moreover have "length rest \<le> maxImages"
    using l unfolding rest_def by (meson length_filter_le le_trans)
  ultimately show ?thesis
    using Some
    by (simp add: remove_def valid_images_def position_renumber length_renumber
        p_def rest_def del: map_map)
qed

lemma valid_images_addFile:
  assumes "valid_images (fst acc)"
  shows "valid_images (fst (addFile acc f))"
proof (cases acc)
  case (Pair imgs errs)
  with assms have v: "valid_positions (map position imgs)" and l: "length imgs \<le> maxImages"
    by (simp_all add: valid_images_def)
  show ?thesis
  proof (cases "size_bytes f > maxFileSizeMB * 1024 * 1024 \<or> length imgs + 1 > maxImages")
    case True
    then show ?thesis using Pair assms by (auto simp: addFile_def)
  next
    case False
    have "valid_positions (map position imgs @ [length imgs])"
      using v by (auto simp: valid_positions_def)
    then show ?thesis
      using Pair False by (simp add: addFile_def valid_images_def new_entry_def)
  qed
qed

lemma valid_images_foldl_addFile:
  "valid_images (fst acc) \<Longrightarrow> valid_images (fst (foldl addFile acc files))"
  by (induction files arbitrary: acc) (simp_all add: valid_images_addFile)

lemma valid_images_addFiles:
  "valid_images imgs \<Longrightarrow> valid_images (fst (addFiles files imgs))"
  unfolding addFiles_def by (rule valid_images_foldl_addFile) simp

lemma valid_images_apply_op:
  "valid_images imgs \<Longrightarrow> valid_images (apply_op imgs op)"
  by (cases op)
    (simp_all add: valid_images_addFiles valid_images_remove valid_images_reorder
      valid_images_setMain)

lemma valid_images_apply_ops:
  "valid_images imgs \<Longrightarrow> valid_images (apply_ops imgs ops)"
  unfolding apply_ops_def
  by (induction ops arbitrary: imgs) (simp_all add: valid_images_apply_op)

text \<open>
  Claim C2. Starting from a list whose positions are unique, zero-based and without gaps
  and which has at most \<open>maxImages\<close> entries, every sequence of \<open>addFiles\<close>, \<open>remove\<close>,
  \<open>reorder\<close> and \<open>setMain\<close> leads to such a list again, of at most 10 entries.
\<close>

theorem image_operations_keep_positions_valid:
  assumes "valid_images imgs"
  shows "distinct (map position (apply_ops imgs ops)) \<and>
         set (map position (apply_ops imgs ops)) = {0..<length (apply_ops imgs ops)} \<and>
         length (apply_ops imgs ops) \<le> 10"
  using valid_images_apply_ops [OF assms, of ops]
  by (simp add: valid_images_def valid_positions_def maxImages_def)

theorem image_operations_keep_positions_valid_witness:
  "valid_images sample_images \<and>
   map position (apply_ops sample_images sample_ops) = [0, 2, 1] \<and>
   distinct (map position (apply_ops sample_images sample_ops)) \<and>
   set (map position (apply_ops sample_images sample_ops)) =
     {0..<length (apply_ops sample_images sample_ops)} \<and>
   length (apply_ops sample_images sample_ops) \<le> 10"
proof -
  have h: "valid_images sample_images"
    by (auto simp: valid_images_def valid_positions_def maxImages_def sample_images_def new_entry_def existing_a_def chair_jpg_def table_jpg_def lamp_jpg_def huge_png_def)
  have r0: "apply_ops sample_images sample_ops =
              remove ''blob:2'' (reorder ''img-a'' 3 (setMain ''blob:2''
                (fst (addFiles [huge_png, lamp_jpg] sample_images))))"
    by (simp add: apply_ops_def sample_ops_def)
  have s1: "fst (addFiles [huge_png, lamp_jpg] sample_images) =
              sample_images @ [new_entry lamp_jpg 3]"
    by (simp add: addFiles_def addFile_def maxImages_def maxFileSizeMB_def sample_images_def
        huge_png_def lamp_jpg_def numeral_3_eq_3)
  have r: "map position (apply_ops sample_images sample_ops) = [0, 2, 1]"
    unfolding r0 s1
    by (simp add: setMain_def reorder_def remove_def find_entry_def renumber_def
        to_front_def moved_def after_removal_def sample_images_def new_entry_def existing_a_def chair_jpg_def table_jpg_def lamp_jpg_def huge_png_def)
  from image_operations_keep_positions_valid [OF h, of sample_ops] h r
  show ?thesis by simp
qed



lemma upload_entry_succeeds:
  "upload_succeeds upload e \<Longrightarrow>
   \<exists>e'. upload_entry upload e = Inr e' \<and>
     (case pending_file e of
        None \<Rightarrow> e' = e
      | Some f \<Rightarrow> upload f = Inr (url e') \<and> e' = e\<lparr>url := url e', status := Uploaded\<rparr>)"
  by (auto simp: upload_succeeds_def upload_entry_def split: option.splits sum.splits)

lemma upload_entry_fails:
  "\<not> upload_succeeds upload e \<Longrightarrow> \<exists>err. upload_entry upload e = Inl err"
  by (auto simp: upload_succeeds_def upload_entry_def split: option.splits sum.splits)

lemma upload_all_succeeds:
  "list_all (upload_succeeds upload) imgs \<Longrightarrow>
   \<exists>imgs'. upload_all upload imgs = Inr imgs' \<and>
     list_all2 (\<lambda>e e'. upload_entry upload e = Inr e') imgs imgs'"
proof (induction imgs)
  case Nil
  then show ?case by simp
next
  case (Cons e es)
  then obtain es' where es: "upload_all upload es = Inr es'"
    "list_all2 (\<lambda>e e'. upload_entry upload e = Inr e') es es'"
    by auto
  from Cons.prems obtain e' where e: "upload_entry upload e = Inr e'"
    using upload_entry_succeeds [of upload e] by auto
  show ?case using es e by simp
qed

lemma upload_all_fails:
  "\<not> list_all (upload_succeeds upload) imgs \<Longrightarrow> \<exists>err. upload_all upload imgs = Inl err"
proof (induction imgs)
  case Nil
  then show ?case by simp
next
  case (Cons e es)
  show ?case
  proof (cases "upload_succeeds upload e")
    case False
    then show ?thesis using upload_entry_fails [of upload e] by auto
  next
    case True
    with Cons show ?thesis by (auto split: sum.splits)
  qed
qed

text \<open>
  Claim C6. \<open>beginUpload\<close> is all or nothing. If the collaborator succeeds on every
  pending entry, each of them ends with status \<open>Uploaded\<close> and the URL the collaborator
  gave, the other entries are untouched, and the URLs of the resulting list are returned
  in position order. If it fails on a single one, the result is the failure and carries
  no URLs, every pending entry is marked \<open>Failed\<close> with its URL unchanged, and none is
  \<open>Uploaded\<close>.
\<close>

theorem beginUpload_all_or_nothing:
  "(list_all (upload_succeeds upload) imgs \<longrightarrow>
      snd (beginUpload upload imgs) = Inr (getImageUrls (fst (beginUpload upload imgs))) \<and>
      length (fst (beginUpload upload imgs)) = length imgs \<and>
      (\<forall>i<length imgs.
         case pending_file (imgs ! i) of
           None \<Rightarrow> fst (beginUpload upload imgs) ! i = imgs ! i
         | Some f \<Rightarrow>
             status (fst (beginUpload upload imgs) ! i) = Uploaded \<and>
             upload f = Inr (url (fst (beginUpload upload imgs) ! i)))) \<and>
   (\<not> list_all (upload_succeeds upload) imgs \<longrightarrow>
      snd (beginUpload upload imgs) = Inl UploadFailed \<and>
      length (fst (beginUpload upload imgs)) = length imgs \<and>
      (\<forall>i<length imgs.
         case pending_file (imgs ! i) of
           None \<Rightarrow> fst (beginUpload upload imgs) ! i = imgs ! i
         | Some f \<Rightarrow>
             status (fst (beginUpload upload imgs) ! i) = Failed \<and>
             url (fst (beginUpload upload imgs) ! i) = url (imgs ! i)))"
proof (cases "list_all (upload_succeeds upload) imgs")
  case True
  then obtain imgs' where ok: "upload_all upload imgs = Inr imgs'"
    and rel: "list_all2 (\<lambda>e e'. upload_entry upload e = Inr e') imgs imgs'"
    using upload_all_succeeds by blast
  have r: "beginUpload upload imgs = (imgs', Inr (getImageUrls imgs'))"
    by (simp add: beginUpload_def ok)
  have len: "length imgs' = length imgs" using rel by (simp add: list_all2_lengthD)
  have each: "case pending_file (imgs ! i) of
                None \<Rightarrow> imgs' ! i = imgs ! i
              | Some f \<Rightarrow> status (imgs' ! i) = Uploaded \<and> upload f = Inr (url (imgs' ! i))"
    if "i < length imgs" for i
  proof -
    have "upload_entry upload (imgs ! i) = Inr (imgs' ! i)"
      using list_all2_nthD [OF rel that] by simp
    then show ?thesis
      by (cases "pending_file (imgs ! i)")
        (auto simp: upload_entry_def split: sum.splits dest: sym)
  qed
  show ?thesis unfolding r fst_conv snd_conv using True len each by simp
next
  case False
  then obtain err where "upload_all upload imgs = Inl err"
    using upload_all_fails by blast
  then have r: "beginUpload upload imgs = (map mark_failed imgs, Inl UploadFailed)"
    by (simp add: beginUpload_def)
  show ?thesis unfolding r fst_conv snd_conv using False
    by (auto simp: mark_failed_def split: option.splits)
qed


theorem beginUpload_all_or_nothing_witness:
  "list_all (upload_succeeds upload_ok) sample_images \<and>
   beginUpload upload_ok sample_images =
     (fst (beginUpload upload_ok sample_images),
      Inr [''a.jpg'', ''https://cdn.example/chair.jpg'', ''https://cdn.example/table.jpg'']) \<and>
   map status (fst (beginUpload upload_ok sample_images)) = [Uploaded, Uploaded, Uploaded] \<and>
   \<not> list_all (upload_succeeds upload_table_fails) sample_images \<and>
   snd (beginUpload upload_table_fails sample_images) = Inl UploadFailed \<and>
   map status (fst (beginUpload upload_table_fails sample_images)) = [Failed, Uploaded, Failed]"
proof -
  have a: "list_all (upload_succeeds upload_ok) sample_images"
    by (simp add: upload_succeeds_def pending_file_def upload_ok_def upload_table_fails_def beginUpload_def upload_entry_def mark_failed_def getImageUrls_def in_position_order_def sample_images_def new_entry_def existing_a_def chair_jpg_def table_jpg_def lamp_jpg_def huge_png_def)
  have b: "\<not> list_all (upload_succeeds upload_table_fails) sample_images"
    by (simp add: upload_succeeds_def pending_file_def upload_ok_def upload_table_fails_def beginUpload_def upload_entry_def mark_failed_def getImageUrls_def in_position_order_def sample_images_def new_entry_def existing_a_def chair_jpg_def table_jpg_def lamp_jpg_def huge_png_def)
  have c: "getImageUrls (fst (beginUpload upload_ok sample_images)) =
             [''a.jpg'', ''https://cdn.example/chair.jpg'', ''https://cdn.example/table.jpg'']"
    by (simp add: upload_succeeds_def pending_file_def upload_ok_def upload_table_fails_def beginUpload_def upload_entry_def mark_failed_def getImageUrls_def in_position_order_def sample_images_def new_entry_def existing_a_def chair_jpg_def table_jpg_def lamp_jpg_def huge_png_def)
  have d: "map status (fst (beginUpload upload_ok sample_images)) = [Uploaded, Uploaded, Uploaded]"
    by (simp add: upload_succeeds_def pending_file_def upload_ok_def upload_table_fails_def beginUpload_def upload_entry_def mark_failed_def getImageUrls_def in_position_order_def sample_images_def new_entry_def existing_a_def chair_jpg_def table_jpg_def lamp_jpg_def huge_png_def)
  have e: "map status (fst (beginUpload upload_table_fails sample_images)) =
             [Failed, Uploaded, Failed]"
    by (simp add: upload_succeeds_def pending_file_def upload_ok_def upload_table_fails_def beginUpload_def upload_entry_def mark_failed_def getImageUrls_def in_position_order_def sample_images_def new_entry_def existing_a_def chair_jpg_def table_jpg_def lamp_jpg_def huge_png_def)
  from beginUpload_all_or_nothing [of upload_ok sample_images]
       beginUpload_all_or_nothing [of upload_table_fails sample_images]
       a b c d e
  show ?thesis by (simp add: prod_eq_iff)
qed

end
